theory Spec2Isabelle
  imports Main
begin

section \<open>Python values used by app.py\<close>

text \<open>
  A Python \<open>str\<close> is a sequence of Unicode code points, and \<open>len\<close>, slicing and
  \<open>split\<close> count code points. A string is therefore a list of code points
  (natural numbers); the em dash of line 90 is the single code point 8212 (U+2014).
  ASCII literals of the source are written \<open>ascii ''...''\<close>.
\<close>

type_synonym ustr = "nat list"

definition ascii :: "string \<Rightarrow> ustr" where
  "ascii s = map of_char s"

definition EM_DASH :: ustr where
  "EM_DASH = [8212]"

text \<open>The exceptions that the modelled operations can raise.\<close>

datatype exn =
    ValueError
  | IndexError
  | KeyError
  | TypeError
  | AttributeError
  | RuntimeError
  | UnicodeEncodeError
  | JSONDecodeError
  | RecursionError
  | ExternalError

text \<open>Sequencing of steps that may raise: the first exception ends the computation.\<close>

definition ebind :: "exn + 'a \<Rightarrow> ('a \<Rightarrow> exn + 'b) \<Rightarrow> exn + 'b" where
  "ebind m f = (case m of Inl e \<Rightarrow> Inl e | Inr x \<Rightarrow> f x)"

text \<open>
  \<open>str.strip()\<close> without argument removes leading and trailing white space, the code
  points for which CPython's \<open>Py_UNICODE_ISSPACE\<close> holds.
\<close>

definition isspace :: "nat \<Rightarrow> bool" where
  "isspace c =
     ((9 \<le> c \<and> c \<le> 13) \<or> (28 \<le> c \<and> c \<le> 32) \<or> c = 133 \<or> c = 160 \<or> c = 5760
      \<or> (8192 \<le> c \<and> c \<le> 8202) \<or> c = 8232 \<or> c = 8233 \<or> c = 8239 \<or> c = 8287
      \<or> c = 12288)"

definition py_strip :: "ustr \<Rightarrow> ustr" where
  "py_strip s = rev (dropWhile isspace (rev (dropWhile isspace s)))"

text \<open>
  \<open>s.split(sep)\<close>: \<open>ValueError\<close> on the empty separator; otherwise the text is cut
  at each occurrence of \<open>sep\<close>, found from left to right without overlap.
  \<open>split_from sep cur rest\<close> scans \<open>rest\<close> with the piece \<open>cur\<close> collected so far.
\<close>

definition startswith :: "ustr \<Rightarrow> ustr \<Rightarrow> bool" where
  "startswith s p = (take (length p) s = p)"

fun split_from :: "ustr \<Rightarrow> ustr \<Rightarrow> ustr \<Rightarrow> ustr list" where
  "split_from sep cur [] = [cur]"
| "split_from sep cur (c # cs) =
     (if sep \<noteq> [] \<and> startswith (c # cs) sep
      then cur # split_from sep [] (drop (length sep) (c # cs))
      else split_from sep (cur @ [c]) cs)"

definition py_split :: "ustr \<Rightarrow> ustr \<Rightarrow> exn + ustr list" where
  "py_split s sep = (if sep = [] then Inl ValueError else Inr (split_from sep [] s))"

text \<open>\<open>sep.join(xs)\<close> for a list of strings.\<close>

fun py_join :: "ustr \<Rightarrow> ustr list \<Rightarrow> ustr" where
  "py_join sep [] = []"
| "py_join sep [x] = x"
| "py_join sep (x # y # ys) = x @ sep @ py_join sep (y # ys)"

text \<open>\<open>xs[i]\<close> for a non-negative index: \<open>IndexError\<close> out of range.\<close>

definition py_index :: "'a list \<Rightarrow> nat \<Rightarrow> exn + 'a" where
  "py_index xs i = (if i < length xs then Inr (xs ! i) else Inl IndexError)"

text \<open>\<open>d.get(k, default)\<close> on a dictionary.\<close>

definition dict_get :: "('k \<rightharpoonup> 'v) \<Rightarrow> 'k \<Rightarrow> 'v \<Rightarrow> 'v" where
  "dict_get d k dflt = (case d k of None \<Rightarrow> dflt | Some v \<Rightarrow> v)"

section \<open>The data model\<close>

text \<open>FormData: a flat dictionary from field names to strings.\<close>

type_synonym formdata = "ustr \<rightharpoonup> ustr"

record experience_entry =
  company :: ustr
  role :: ustr
  dates :: ustr
  bullets :: "ustr list"

record resume_structure =
  summary :: ustr
  experiences :: "experience_entry list"
  skills_line :: ustr

section \<open>The local structurer: \<open>fallback_structure\<close>\<close>

text \<open>
  Lines 90 to 101, the body of the loop for one block that is already stripped and not
  empty. Every \<open>parts[i]\<close> is an indexing that can raise and stands behind the
  guard \<open>len(parts) > i\<close> of the source.
\<close>

definition first_bullet :: "ustr \<Rightarrow> ustr \<Rightarrow> ustr \<Rightarrow> ustr" where
  "first_bullet desc role' company' =
     (if desc \<noteq> []
      then (if length desc \<le> 120 then desc else take 117 desc @ ascii ''...'')
      else ascii ''Served as '' @ role' @ ascii '' at '' @ company')"

definition experience_entry_of :: "ustr \<Rightarrow> exn + experience_entry" where
  "experience_entry_of block =
     ebind (py_split block EM_DASH) (\<lambda>ps.
     let parts = map py_strip ps in
     ebind (if length parts > 0 then py_index parts 0 else Inr []) (\<lambda>company.
     ebind (if length parts > 1 then py_index parts 1 else Inr []) (\<lambda>role.
     ebind (if length parts > 2 then py_index parts 2 else Inr []) (\<lambda>dates.
     ebind (if length parts > 3 then py_index parts 3 else Inr []) (\<lambda>desc.
     let bullets0 = [first_bullet desc role company];
         bullets1 = bullets0 @ [ascii ''Delivered key results'', ascii ''Collaborated across teams'']
     in Inr \<lparr>company = company, role = role, dates = dates, bullets = bullets1\<rparr>)))))"

text \<open>
  Lines 86 to 101, the loop over the blocks with the list \<open>ex_list\<close> built so far:
  a block that is empty once stripped is skipped (\<open>continue\<close>).
\<close>

fun experience_loop :: "ustr list \<Rightarrow> experience_entry list \<Rightarrow> exn + experience_entry list" where
  "experience_loop [] ex_list = Inr ex_list"
| "experience_loop (block # rest) ex_list =
     (let block' = py_strip block in
      if block' = [] then experience_loop rest ex_list
      else (case experience_entry_of block' of
              Inl e \<Rightarrow> Inl e
            | Inr entry \<Rightarrow> experience_loop rest (ex_list @ [entry])))"

text \<open>Lines 81 to 103.\<close>

definition fallback_structure :: "formdata \<Rightarrow> exn + resume_structure" where
  "fallback_structure data =
     ebind (py_split (dict_get data (ascii ''skills'') []) (ascii '','')) (\<lambda>toks.
     let summary' = dict_get data (ascii ''title'') [] @ ascii '' with experience in ''
                    @ py_join (ascii '', '') (take 3 (map py_strip toks)) @ ascii ''.'';
         raw = dict_get data (ascii ''experience_raw'') []
     in
     ebind (py_split raw (ascii ''||'')) (\<lambda>blocks.
     ebind (experience_loop blocks []) (\<lambda>ex_list.
     ebind (py_split (dict_get data (ascii ''skills'') []) (ascii '','')) (\<lambda>toks2.
     let skills_line' =
           py_join (ascii '', '') (map py_strip (filter (\<lambda>s. py_strip s \<noteq> []) toks2))
     in Inr \<lparr>summary = summary', experiences = ex_list, skills_line = skills_line'\<rparr>))))"

section \<open>Values parsed from JSON and the external collaborators\<close>

text \<open>
  \<open>json.loads\<close> returns \<open>None\<close>, a \<open>bool\<close>, an \<open>int\<close>, a \<open>float\<close>, a \<open>str\<close>,
  a \<open>list\<close> or a \<open>dict\<close> with string keys. A float is kept as a dyadic number
  \<open>m * 2 ^ e\<close> or one of the three special values that \<open>json.loads\<close> accepts; only
  whether it is zero matters below. A dictionary is a list of items.
\<close>

datatype pyfloat = Dyadic int int | Infinity | NegInfinity | NaN

datatype pyval =
    PyNone
  | PyBool bool
  | PyInt int
  | PyFloat pyfloat
  | PyStr ustr
  | PyList "pyval list"
  | PyDict "(ustr \<times> pyval) list"

text \<open>The truth value that \<open>if\<close> and \<open>not\<close> give to a value.\<close>

fun truthy :: "pyval \<Rightarrow> bool" where
  "truthy PyNone = False"
| "truthy (PyBool b) = b"
| "truthy (PyInt i) = (i \<noteq> 0)"
| "truthy (PyFloat (Dyadic m e)) = (m \<noteq> 0)"
| "truthy (PyFloat f) = True"
| "truthy (PyStr s) = (s \<noteq> [])"
| "truthy (PyList xs) = (xs \<noteq> [])"
| "truthy (PyDict kvs) = (kvs \<noteq> [])"

text \<open>\<open>v.get(k, default)\<close>: only a dictionary has the method.\<close>

definition py_get :: "pyval \<Rightarrow> ustr \<Rightarrow> pyval \<Rightarrow> exn + pyval" where
  "py_get v k dflt =
     (case v of
        PyDict kvs \<Rightarrow> Inr (case map_of kvs k of None \<Rightarrow> dflt | Some x \<Rightarrow> x)
      | _ \<Rightarrow> Inl AttributeError)"

text \<open>\<open>v[k]\<close> for a string key and \<open>v[i]\<close> for a non-negative index.\<close>

definition getitem_key :: "pyval \<Rightarrow> ustr \<Rightarrow> exn + pyval" where
  "getitem_key v k =
     (case v of
        PyDict kvs \<Rightarrow> (case map_of kvs k of None \<Rightarrow> Inl KeyError | Some x \<Rightarrow> Inr x)
      | _ \<Rightarrow> Inl TypeError)"

definition getitem_index :: "pyval \<Rightarrow> nat \<Rightarrow> exn + pyval" where
  "getitem_index v i =
     (case v of
        PyList xs \<Rightarrow> py_index xs i
      | PyStr s \<Rightarrow> (if i < length s then Inr (PyStr [s ! i]) else Inl IndexError)
      | PyDict kvs \<Rightarrow> Inl KeyError
      | _ \<Rightarrow> Inl TypeError)"

text \<open>
  \<open>v[:n]\<close>: a string or a list is cut, any other value raises (for a dictionary the
  class of the exception depends on the version of Python; the model has one).
\<close>

definition py_slice_to :: "pyval \<Rightarrow> nat \<Rightarrow> exn + pyval" where
  "py_slice_to v n =
     (case v of
        PyStr s \<Rightarrow> Inr (PyStr (take n s))
      | PyList xs \<Rightarrow> Inr (PyList (take n xs))
      | _ \<Rightarrow> Inl TypeError)"

text \<open>The items that \<open>for x in v\<close> visits.\<close>

definition py_iter :: "pyval \<Rightarrow> exn + pyval list" where
  "py_iter v =
     (case v of
        PyList xs \<Rightarrow> Inr xs
      | PyStr s \<Rightarrow> Inr (map (\<lambda>c. PyStr [c]) s)
      | PyDict kvs \<Rightarrow> Inr (map (\<lambda>kv. PyStr (fst kv)) kvs)
      | _ \<Rightarrow> Inl TypeError)"

text \<open>
  \<open>s.encode()\<close>: UTF-8, strict. A surrogate code point (U+D800 to U+DFFF) cannot be
  encoded and raises \<open>UnicodeEncodeError\<close>. Bytes are numbers below 256.
\<close>

type_synonym bytes = "nat list"

definition utf8_char :: "nat \<Rightarrow> exn + bytes" where
  "utf8_char c =
     (if c < 128 then Inr [c]
      else if c < 2048 then Inr [192 + c div 64, 128 + c mod 64]
      else if 55296 \<le> c \<and> c \<le> 57343 then Inl UnicodeEncodeError
      else if c < 65536 then Inr [224 + c div 4096, 128 + (c div 64) mod 64, 128 + c mod 64]
      else Inr [240 + c div 262144, 128 + (c div 4096) mod 64, 128 + (c div 64) mod 64,
                128 + c mod 64])"

fun py_encode :: "ustr \<Rightarrow> exn + bytes" where
  "py_encode [] = Inr []"
| "py_encode (c # cs) =
     ebind (utf8_char c) (\<lambda>bs. ebind (py_encode cs) (\<lambda>more. Inr (bs @ more)))"

text \<open>
  The calls that ReportLab's canvas and python-docx's document receive. The libraries are
  not part of the repository: what they do with a call is a parameter.
\<close>

datatype canvas_op =
    SetFont ustr int
  | DrawString int int pyval
  | ShowPage
  | Save

datatype docx_op =
    AddHeading pyval nat
  | AddParagraph pyval
  | AddBulletParagraph pyval
  | AddPicture ustr
  | SaveDocument

text \<open>
  The environment of the program: the three capability flags set at import time (lines 9
  to 28) and the behaviour of the libraries and services that the program calls.
  A call that can raise returns \<open>Inl\<close>. \<open>canvas_check env log op\<close> is the exception, if
  any, that ReportLab raises for the call \<open>op\<close> after the calls \<open>log\<close>; \<open>canvas_bytes\<close>
  is the content of the buffer for the calls made. \<open>docx_check\<close> and \<open>docx_bytes\<close> are
  the same for python-docx. \<open>str_other\<close> is \<open>str(v)\<close> for a value that is not a string; it can
  raise, as \<open>RecursionError\<close> for a deeply nested value.
  \<open>ChatCompletion_create env key prompt\<close> is the request to the completion service with
  \<open>openai.api_key\<close> set to \<open>key\<close>. \<open>send_file_check env buf name mime\<close> is the
  exception, if any, that Flask's \<open>send_file\<close> raises for these bytes, this download
  name and this content type; it raises \<open>ValueError\<close> for a name that holds a line
  break.
\<close>

record env =
  OPENAI_AVAILABLE :: bool
  WEASY_AVAILABLE :: bool
  DOCX_AVAILABLE :: bool
  json_dumps :: "formdata \<Rightarrow> exn + ustr"
  json_loads :: "ustr \<Rightarrow> exn + pyval"
  ChatCompletion_create :: "ustr \<Rightarrow> ustr \<Rightarrow> exn + pyval"
  render_template :: "ustr \<Rightarrow> pyval \<Rightarrow> pyval \<Rightarrow> ustr option \<Rightarrow> exn + ustr"
  write_pdf :: "ustr \<Rightarrow> exn + bytes"
  canvas_check :: "canvas_op list \<Rightarrow> canvas_op \<Rightarrow> exn option"
  canvas_bytes :: "canvas_op list \<Rightarrow> bytes"
  path_exists :: "ustr \<Rightarrow> bool"
  docx_check :: "docx_op list \<Rightarrow> docx_op \<Rightarrow> exn option"
  docx_bytes :: "docx_op list \<Rightarrow> bytes"
  str_other :: "pyval \<Rightarrow> exn + ustr"
  send_file_check :: "bytes \<Rightarrow> ustr \<Rightarrow> ustr \<Rightarrow> exn option"

text \<open>
  \<open>json.loads(x)\<close> for the value of a form field or of a response: a value that is not
  a string (a missing field is \<open>None\<close>) raises \<open>TypeError\<close> before any parsing.
\<close>

definition py_json_loads :: "env \<Rightarrow> pyval \<Rightarrow> exn + pyval" where
  "py_json_loads E v = (case v of PyStr s \<Rightarrow> json_loads E s | _ \<Rightarrow> Inl TypeError)"

text \<open>A replacement field \<open>{v}\<close> of an f-string.\<close>

definition py_format :: "env \<Rightarrow> pyval \<Rightarrow> exn + ustr" where
  "py_format E v = (case v of PyStr s \<Rightarrow> Inr s | _ \<Rightarrow> str_other E v)"

text \<open>\<open>request.form.get(k)\<close>: \<open>None\<close> for a field that the request does not have.\<close>

definition form_field :: "ustr option \<Rightarrow> pyval" where
  "form_field f = (case f of None \<Rightarrow> PyNone | Some s \<Rightarrow> PyStr s)"

section \<open>The AI structurer: \<open>call_openai_for_resume\<close>\<close>

definition NL :: ustr where
  "NL = [10]"

text \<open>Lines 57 to 67: the prompt around the serialised form.\<close>

definition prompt_of :: "ustr \<Rightarrow> ustr" where
  "prompt_of dumped =
     NL @ ascii ''You are a helpful assistant that produces JSON for resumes.'' @ NL
     @ ascii ''Input (JSON):'' @ NL
     @ dumped @ NL
     @ NL
     @ ascii ''Produce valid JSON with keys:'' @ NL
     @ ascii ''- summary : string (2-3 sentences)'' @ NL
     @ ascii ''- experiences : list of objects: {company, role, dates, bullets: [str...] }'' @ NL
     @ ascii ''- skills_line: string (comma separated)'' @ NL
     @ ascii ''Return only JSON.'' @ NL"

text \<open>Line 74: \<open>resp["choices"][0]["message"]["content"]\<close>.\<close>

definition completion_text :: "pyval \<Rightarrow> exn + pyval" where
  "completion_text resp =
     ebind (getitem_key resp (ascii ''choices'')) (\<lambda>choices.
     ebind (getitem_index choices 0) (\<lambda>choice.
     ebind (getitem_key choice (ascii ''message'')) (\<lambda>message.
     getitem_key message (ascii ''content''))))"

text \<open>
  Lines 56 to 76, the body of the \<open>try\<close>: its outcome and the number of requests sent to
  the completion service. The request is sent once the prompt is built.
\<close>

definition openai_try :: "env \<Rightarrow> ustr \<Rightarrow> formdata \<Rightarrow> (exn + pyval) \<times> nat" where
  "openai_try E api_key structured_input =
     (case json_dumps E structured_input of
        Inl e \<Rightarrow> (Inl e, 0)
      | Inr dumped \<Rightarrow>
          (ebind (ChatCompletion_create E api_key (prompt_of dumped)) (\<lambda>resp.
           ebind (completion_text resp) (\<lambda>text.
           ebind (py_json_loads E text) (\<lambda>parsed.
           Inr parsed))), 1))"

text \<open>
  Lines 51 to 79. The result is the returned value (\<open>PyNone\<close> for \<open>None\<close>) with the
  number of requests sent. \<open>except Exception\<close> turns every exception of the body
  into \<open>None\<close>.
\<close>

definition call_openai_for_resume :: "env \<Rightarrow> ustr \<Rightarrow> formdata \<Rightarrow> pyval \<times> nat" where
  "call_openai_for_resume E api_key structured_input =
     (if \<not> OPENAI_AVAILABLE E \<or> api_key = [] then (PyNone, 0)
      else (case openai_try E api_key structured_input of
              (Inl e, n) \<Rightarrow> (PyNone, n)
            | (Inr parsed, n) \<Rightarrow> (parsed, n)))"

section \<open>The request handler \<open>index\<close>: the structure handed to rendering\<close>

text \<open>The dictionary that lines 101 and 103 build, as a value.\<close>

definition dict_of_entry :: "experience_entry \<Rightarrow> pyval" where
  "dict_of_entry e =
     PyDict [(ascii ''company'', PyStr (company e)), (ascii ''role'', PyStr (role e)),
             (ascii ''dates'', PyStr (dates e)),
             (ascii ''bullets'', PyList (map PyStr (bullets e)))]"

definition dict_of_structure :: "resume_structure \<Rightarrow> pyval" where
  "dict_of_structure r =
     PyDict [(ascii ''summary'', PyStr (summary r)),
             (ascii ''experiences'', PyList (map dict_of_entry (experiences r))),
             (ascii ''skills_line'', PyStr (skills_line r))]"

text \<open>Lines 158 to 169: the form collected from the fields of a POST request.\<close>

definition collect_form :: "(ustr \<rightharpoonup> ustr) \<Rightarrow> formdata" where
  "collect_form rf =
     [ascii ''name'' \<mapsto> py_strip (dict_get rf (ascii ''name'') []),
      ascii ''title'' \<mapsto> py_strip (dict_get rf (ascii ''title'') []),
      ascii ''email'' \<mapsto> py_strip (dict_get rf (ascii ''email'') []),
      ascii ''phone'' \<mapsto> py_strip (dict_get rf (ascii ''phone'') []),
      ascii ''linkedin'' \<mapsto> py_strip (dict_get rf (ascii ''linkedin'') []),
      ascii ''location'' \<mapsto> py_strip (dict_get rf (ascii ''location'') []),
      ascii ''skills'' \<mapsto> py_strip (dict_get rf (ascii ''skills'') []),
      ascii ''achievements'' \<mapsto> py_strip (dict_get rf (ascii ''achievements'') []),
      ascii ''experience_raw'' \<mapsto> py_strip (dict_get rf (ascii ''experience'') []),
      ascii ''education'' \<mapsto> py_strip (dict_get rf (ascii ''education'') [])]"

text \<open>
  Lines 158 to 190 of \<open>index\<close> for a POST request with the form fields \<open>rf\<close>: the value
  of \<open>ai_struct\<close> that line 192 hands to \<open>render_resume_html\<close>. The upload handling of
  lines 173 to 183 does not touch \<open>ai_struct\<close> and is left out.
\<close>

definition index_ai_struct :: "env \<Rightarrow> (ustr \<rightharpoonup> ustr) \<Rightarrow> exn + pyval" where
  "index_ai_struct E rf =
     (let form = collect_form rf;
          apikey = py_strip (dict_get rf (ascii ''apikey'') []);
          ai_struct0 = PyNone;
          ai_struct1 = (if apikey \<noteq> [] \<and> OPENAI_AVAILABLE E
                        then fst (call_openai_for_resume E apikey form)
                        else ai_struct0)
      in if \<not> truthy ai_struct1
         then ebind (fallback_structure form) (\<lambda>r. Inr (dict_of_structure r))
         else Inr ai_struct1)"

section \<open>Rendering and export\<close>

text \<open>Lines 43 to 49.\<close>

definition TPL_MAP :: "(ustr \<times> ustr) list" where
  "TPL_MAP =
     [(ascii ''template1'', ascii ''pro_minimal''),
      (ascii ''template2'', ascii ''modern_creative''),
      (ascii ''template3'', ascii ''tech_profile''),
      (ascii ''template_exec'', ascii ''executive''),
      (ascii ''template_founder'', ascii ''founder'')]"

text \<open>
  Lines 105 to 107. The chosen template is a string or \<open>None\<close>; an identifier that is
  not in the table is used as it is, and the f-string writes \<open>None\<close> as a word.
\<close>

definition render_resume_html ::
  "env \<Rightarrow> ustr option \<Rightarrow> pyval \<Rightarrow> pyval \<Rightarrow> ustr option \<Rightarrow> exn + ustr" where
  "render_resume_html E chosen_template form_data ai_struct img =
     (let tpl = (case chosen_template of
                   None \<Rightarrow> ascii ''None''
                 | Some c \<Rightarrow> (case map_of TPL_MAP c of None \<Rightarrow> c | Some t \<Rightarrow> t))
      in render_template E (ascii ''resume_templates/'' @ tpl @ ascii ''.html'')
           form_data ai_struct img)"

text \<open>A response of \<open>send_file\<close>: the bytes with the name and content type given to it.\<close>

record response =
  body :: bytes
  download_name :: ustr
  mimetype :: ustr

text \<open>
  \<open>send_file(buf, as_attachment=True, download_name=..., mimetype=...)\<close>: it raises,
  or it returns the response.
\<close>

definition send_file :: "env \<Rightarrow> bytes \<Rightarrow> ustr \<Rightarrow> ustr \<Rightarrow> exn + response" where
  "send_file E buf dl mime =
     (case send_file_check E buf dl mime of
        Some e \<Rightarrow> Inl e
      | None \<Rightarrow> Inr \<lparr>body = buf, download_name = dl, mimetype = mime\<rparr>)"

record download_request =
  form_data_json :: "ustr option"
  ai_json :: "ustr option"
  template_choice :: "ustr option"
  profile_image_path :: "ustr option"

text \<open>\<open>request.form.get("profile_image_path") or None\<close>.\<close>

definition or_None :: "ustr option \<Rightarrow> ustr option" where
  "or_None f = (case f of None \<Rightarrow> None | Some s \<Rightarrow> (if s = [] then None else Some s))"

text \<open>One call on the canvas: it raises, or it is added to the calls made.\<close>

definition canvas_do :: "env \<Rightarrow> canvas_op list \<Rightarrow> canvas_op \<Rightarrow> exn + canvas_op list" where
  "canvas_do E log c = (case canvas_check E log c of Some e \<Rightarrow> Inl e | None \<Rightarrow> Inr (log @ [c]))"

text \<open>Lines 144 to 149: the loop over the lines with the cursor \<open>y\<close>.\<close>

fun draw_lines :: "env \<Rightarrow> int \<Rightarrow> int \<Rightarrow> pyval list \<Rightarrow> canvas_op list \<Rightarrow> exn + canvas_op list" where
  "draw_lines E x y [] log = Inr log"
| "draw_lines E x y (line # rest) log =
     ebind (py_slice_to line 95) (\<lambda>cut.
     ebind (canvas_do E log (DrawString x y cut)) (\<lambda>log1.
     let y1 = y - 14 in
     if y1 < 80
     then ebind (canvas_do E log1 ShowPage) (\<lambda>log2. draw_lines E x 750 rest log2)
     else draw_lines E x y1 rest log1))"

text \<open>A call that draws text does so at a height between the bottom margin and the top.\<close>

fun on_page :: "canvas_op \<Rightarrow> bool" where
  "on_page (DrawString x y v) = (80 \<le> y \<and> y \<le> 750)"
| "on_page c = True"

text \<open>Lines 136 to 152.\<close>

definition reportlab_pdf_bytes :: "env \<Rightarrow> pyval \<Rightarrow> ustr option \<Rightarrow> exn + bytes" where
  "reportlab_pdf_bytes E lines img =
     (let x = 50; y = 750 in
      ebind (canvas_do E [] (SetFont (ascii ''Helvetica-Bold'') 18)) (\<lambda>log1.
      ebind (py_get lines (ascii ''title_line'') (PyStr (ascii ''Resume''))) (\<lambda>title.
      ebind (canvas_do E log1 (DrawString x y title)) (\<lambda>log2.
      ebind (canvas_do E log2 (SetFont (ascii ''Helvetica'') 11)) (\<lambda>log3.
      ebind (py_get lines (ascii ''lines'') (PyList [])) (\<lambda>ls.
      ebind (py_iter ls) (\<lambda>items.
      ebind (draw_lines E x (y - 24) items log3) (\<lambda>log4.
      ebind (canvas_do E log4 Save) (\<lambda>log5.
      Inr (canvas_bytes E log5))))))))))"

definition PDF_MIME :: ustr where
  "PDF_MIME = ascii ''application/pdf''"

text \<open>
  Lines 213 to 217: the attempt with WeasyPrint. Every exception inside the \<open>try\<close>,
  also one raised while the file name is built or by \<open>send_file\<close>, leads to the
  fallback.
\<close>

definition weasy_attempt :: "env \<Rightarrow> ustr \<Rightarrow> pyval \<Rightarrow> exn + response" where
  "weasy_attempt E html form_data =
     ebind (write_pdf E html) (\<lambda>pdf.
     ebind (py_get form_data (ascii ''name'') (PyStr (ascii ''resume''))) (\<lambda>nm.
     ebind (py_format E nm) (\<lambda>dl.
     send_file E pdf (dl @ ascii ''.pdf'') PDF_MIME)))"

text \<open>Lines 219 to 222: the fallback with ReportLab.\<close>

definition pdf_fallback :: "env \<Rightarrow> pyval \<Rightarrow> pyval \<Rightarrow> ustr option \<Rightarrow> exn + response" where
  "pdf_fallback E form_data ai_struct img =
     ebind (py_get form_data (ascii ''name'') (PyStr [])) (\<lambda>title.
     ebind (py_get ai_struct (ascii ''summary'') (PyStr [])) (\<lambda>l1.
     ebind (py_get ai_struct (ascii ''skills_line'') (PyStr [])) (\<lambda>l2.
     let lines = PyDict [(ascii ''title_line'', title), (ascii ''lines'', PyList [l1, l2])] in
     ebind (reportlab_pdf_bytes E lines img) (\<lambda>buf.
     ebind (py_get form_data (ascii ''name'') (PyStr (ascii ''resume''))) (\<lambda>nm.
     ebind (py_format E nm) (\<lambda>dl.
     send_file E buf (dl @ ascii ''.pdf'') PDF_MIME))))))"

text \<open>Lines 202 to 222.\<close>

definition download_pdf :: "env \<Rightarrow> download_request \<Rightarrow> exn + response" where
  "download_pdf E req =
     ebind (py_json_loads E (form_field (form_data_json req))) (\<lambda>form_data.
     ebind (py_json_loads E (form_field (ai_json req))) (\<lambda>ai_struct.
     let img = or_None (profile_image_path req) in
     ebind (render_resume_html E (template_choice req) form_data ai_struct img) (\<lambda>html.
     if WEASY_AVAILABLE E
     then (case weasy_attempt E html form_data of
             Inr resp \<Rightarrow> Inr resp
           | Inl e \<Rightarrow> pdf_fallback E form_data ai_struct img)
     else pdf_fallback E form_data ai_struct img)))"

text \<open>One call on the document: it raises, or it is added to the calls made.\<close>

definition docx_do :: "env \<Rightarrow> docx_op list \<Rightarrow> docx_op \<Rightarrow> exn + docx_op list" where
  "docx_do E log c = (case docx_check E log c of Some e \<Rightarrow> Inl e | None \<Rightarrow> Inr (log @ [c]))"

text \<open>Lines 127 and 128: the bullets of one entry.\<close>

fun add_bullets :: "env \<Rightarrow> pyval list \<Rightarrow> docx_op list \<Rightarrow> exn + docx_op list" where
  "add_bullets E [] log = Inr log"
| "add_bullets E (b # bs) log =
     ebind (docx_do E log (AddBulletParagraph b)) (\<lambda>log1. add_bullets E bs log1)"

text \<open>Lines 125 to 128: the loop over the entries.\<close>

fun add_experiences :: "env \<Rightarrow> pyval list \<Rightarrow> docx_op list \<Rightarrow> exn + docx_op list" where
  "add_experiences E [] log = Inr log"
| "add_experiences E (ex # rest) log =
     ebind (py_get ex (ascii ''role'') (PyStr [])) (\<lambda>r.
     ebind (py_format E r) (\<lambda>r_text.
     ebind (py_get ex (ascii ''company'') (PyStr [])) (\<lambda>c.
     ebind (py_format E c) (\<lambda>c_text.
     let heading = r_text @ ascii '' '' @ EM_DASH @ ascii '' '' @ c_text in
     ebind (docx_do E log (AddHeading (PyStr heading) 2)) (\<lambda>log1.
     ebind (py_get ex (ascii ''bullets'') (PyList [])) (\<lambda>bl.
     ebind (py_iter bl) (\<lambda>bs.
     ebind (add_bullets E bs log1) (\<lambda>log2.
     add_experiences E rest log2))))))))"

text \<open>
  Lines 115 to 119: the picture is added when the path is given and exists; an exception
  of \<open>add_picture\<close> is passed over.
\<close>

definition add_profile_picture :: "env \<Rightarrow> ustr option \<Rightarrow> docx_op list \<Rightarrow> docx_op list" where
  "add_profile_picture E img log =
     (case img of
        None \<Rightarrow> log
      | Some p \<Rightarrow>
          (if p \<noteq> [] \<and> path_exists E p
           then (case docx_check E log (AddPicture p) of
                   Some e \<Rightarrow> log
                 | None \<Rightarrow> log @ [AddPicture p])
           else log))"

text \<open>Lines 109 to 134.\<close>

definition generate_docx_bytes :: "env \<Rightarrow> pyval \<Rightarrow> pyval \<Rightarrow> ustr option \<Rightarrow> exn + bytes" where
  "generate_docx_bytes E form_data ai_struct img =
     (if \<not> DOCX_AVAILABLE E then Inl RuntimeError
      else
        ebind (py_get form_data (ascii ''name'') (PyStr [])) (\<lambda>nm.
        ebind (docx_do E [] (AddHeading nm 0)) (\<lambda>log1.
        ebind (py_get form_data (ascii ''title'') (PyStr [])) (\<lambda>ttl.
        ebind (docx_do E log1 (AddParagraph ttl)) (\<lambda>log2.
        let log3 = add_profile_picture E img log2 in
        ebind (docx_do E log3 (AddHeading (PyStr (ascii ''Summary'')) 1)) (\<lambda>log4.
        ebind (py_get ai_struct (ascii ''summary'') (PyStr [])) (\<lambda>sm.
        ebind (docx_do E log4 (AddParagraph sm)) (\<lambda>log5.
        ebind (docx_do E log5 (AddHeading (PyStr (ascii ''Skills'')) 1)) (\<lambda>log6.
        ebind (py_get ai_struct (ascii ''skills_line'') (PyStr [])) (\<lambda>sk.
        ebind (docx_do E log6 (AddParagraph sk)) (\<lambda>log7.
        ebind (docx_do E log7 (AddHeading (PyStr (ascii ''Experience'')) 1)) (\<lambda>log8.
        ebind (py_get ai_struct (ascii ''experiences'') (PyList [])) (\<lambda>exs.
        ebind (py_iter exs) (\<lambda>items.
        ebind (add_experiences E items log8) (\<lambda>log9.
        ebind (docx_do E log9 (AddHeading (PyStr (ascii ''Education'')) 1)) (\<lambda>log10.
        ebind (py_get form_data (ascii ''education'') (PyStr [])) (\<lambda>ed.
        ebind (docx_do E log10 (AddParagraph ed)) (\<lambda>log11.
        ebind (docx_do E log11 SaveDocument) (\<lambda>log12.
        Inr (docx_bytes E log12))))))))))))))))))))"

definition DOCX_MIME :: ustr where
  "DOCX_MIME =
     ascii ''application/vnd.openxmlformats-officedocument.wordprocessingml.document''"

definition TEXT_MIME :: ustr where
  "TEXT_MIME = ascii ''text/plain''"

text \<open>
  Lines 235 to 242: the text of the fallback, from the four values once formatted.
\<close>

definition fallback_text :: "ustr \<Rightarrow> ustr \<Rightarrow> ustr \<Rightarrow> ustr \<Rightarrow> ustr" where
  "fallback_text nm ttl sm sk =
     nm @ NL @ ttl @ NL @ NL @ sm @ NL @ NL @ ascii ''Skills: '' @ sk @ NL"

text \<open>Lines 224 to 244.\<close>

definition download_docx :: "env \<Rightarrow> download_request \<Rightarrow> exn + response" where
  "download_docx E req =
     ebind (py_json_loads E (form_field (form_data_json req))) (\<lambda>form_data.
     ebind (py_json_loads E (form_field (ai_json req))) (\<lambda>ai_struct.
     let img = or_None (profile_image_path req) in
     if DOCX_AVAILABLE E
     then
       ebind (generate_docx_bytes E form_data ai_struct img) (\<lambda>docx_buf.
       ebind (py_get form_data (ascii ''name'') (PyStr (ascii ''resume''))) (\<lambda>nm.
       ebind (py_format E nm) (\<lambda>dl.
       send_file E docx_buf (dl @ ascii ''.docx'') DOCX_MIME)))
     else
       ebind (py_get form_data (ascii ''name'') (PyStr [])) (\<lambda>nm.
       ebind (py_format E nm) (\<lambda>nm_text.
       ebind (py_get form_data (ascii ''title'') (PyStr [])) (\<lambda>ttl.
       ebind (py_format E ttl) (\<lambda>ttl_text.
       ebind (py_get ai_struct (ascii ''summary'') (PyStr [])) (\<lambda>sm.
       ebind (py_format E sm) (\<lambda>sm_text.
       ebind (py_get ai_struct (ascii ''skills_line'') (PyStr [])) (\<lambda>sk.
       ebind (py_format E sk) (\<lambda>sk_text.
       let txt = fallback_text nm_text ttl_text sm_text sk_text in
       ebind (py_encode txt) (\<lambda>encoded.
       ebind (py_get form_data (ascii ''name'') (PyStr (ascii ''resume''))) (\<lambda>nm2.
       ebind (py_format E nm2) (\<lambda>dl.
       send_file E encoded (dl @ ascii ''.txt'') TEXT_MIME)))))))))))))"

section \<open>The vocabulary of the specification\<close>

text \<open>
  The specification speaks of the blocks of \<open>experience_raw\<close>, of the parts of a block and
  of the skill tokens. These definitions follow its words; the theorems below compare the
  result of \<open>fallback_structure\<close> with them.
\<close>

text \<open>The pieces of \<open>s\<close> between the occurrences of a separator.\<close>

definition spec_pieces :: "ustr \<Rightarrow> ustr \<Rightarrow> ustr list" where
  "spec_pieces sep s = split_from sep [] s"

text \<open>The trimmed blocks of \<open>experience_raw\<close>, split on \<open>||\<close>, that are not empty.\<close>

definition spec_blocks :: "ustr \<Rightarrow> ustr list" where
  "spec_blocks raw = filter (\<lambda>b. b \<noteq> []) (map py_strip (spec_pieces (ascii ''||'') raw))"

text \<open>
  Part number \<open>i\<close> (from 0) of a block split on the em dash, trimmed; the empty string
  when the block has no such part. Part 0 is the company, 1 the role, 2 the dates and
  3 the description.
\<close>

definition spec_part :: "ustr \<Rightarrow> nat \<Rightarrow> ustr" where
  "spec_part b i =
     (let parts = map py_strip (spec_pieces EM_DASH b)
      in if i < length parts then parts ! i else [])"

text \<open>The trimmed tokens of the skills text, split on the comma.\<close>

definition spec_skill_tokens :: "ustr \<Rightarrow> ustr list" where
  "spec_skill_tokens skills = map py_strip (spec_pieces (ascii '','') skills)"

definition spec_skills_line :: "ustr \<Rightarrow> ustr" where
  "spec_skills_line skills =
     py_join (ascii '', '') (filter (\<lambda>t. t \<noteq> []) (spec_skill_tokens skills))"

definition spec_summary :: "ustr \<Rightarrow> ustr \<Rightarrow> ustr" where
  "spec_summary title skills =
     title @ ascii '' with experience in ''
       @ py_join (ascii '', '') (take 3 (spec_skill_tokens skills)) @ ascii ''.''"

text \<open>The entry that the specification describes for one block.\<close>

definition spec_entry :: "ustr \<Rightarrow> experience_entry" where
  "spec_entry b =
     \<lparr>company = spec_part b 0, role = spec_part b 1, dates = spec_part b 2,
      bullets = [first_bullet (spec_part b 3) (spec_part b 1) (spec_part b 0),
                 ascii ''Delivered key results'', ascii ''Collaborated across teams'']\<rparr>"

section \<open>Sample inputs\<close>

text \<open>The two examples of the specification, and a form whose two blocks have
  descriptions of 120 and of 121 characters.\<close>

definition example_experience_raw :: ustr where
  "example_experience_raw =
     ascii ''Acme'' @ EM_DASH @ ascii ''Engineer'' @ EM_DASH @ ascii ''2020-2022'' @ EM_DASH
     @ ascii ''Built systems||Globex'' @ EM_DASH @ ascii ''Lead'' @ EM_DASH @ ascii ''2022-2023''"

definition example_form :: formdata where
  "example_form =
     [ascii ''experience_raw'' \<mapsto> example_experience_raw,
      ascii ''skills'' \<mapsto> ascii ''Python, , Go ,Rust'',
      ascii ''title'' \<mapsto> ascii ''Engineer'']"

definition desc120 :: ustr where
  "desc120 =
     ascii ''012345678901234567890123456789012345678901234567890123456789''
     @ ascii ''012345678901234567890123456789012345678901234567890123456789''"

definition desc121 :: ustr where
  "desc121 = desc120 @ ascii ''X''"

definition long_form :: formdata where
  "long_form =
     [ascii ''experience_raw'' \<mapsto>
        ascii ''Acme'' @ EM_DASH @ ascii ''Engineer'' @ EM_DASH @ ascii ''2020'' @ EM_DASH
        @ desc120 @ ascii ''||Globex'' @ EM_DASH @ ascii ''Lead'' @ EM_DASH
        @ ascii ''2022'' @ EM_DASH @ desc121]"

text \<open>
  A sample environment. The completion service answers every request with the text
  \<open>reply\<close>; WeasyPrint and python-docx are not installed; ReportLab and the template
  engine accept every call; \<open>send_file\<close> refuses a name with a line feed or a
  carriage return. \<open>sample_loads\<close> is \<open>json.loads\<close> on six texts and
  treats every other text as malformed. \<open>json_dumps\<close> and \<open>str_other\<close> answer with
  a fixed text (the serialisation of the empty form, the text of \<open>None\<close>): in the runs
  below only the success of the first matters, and the second is not reached.
\<close>

definition jq :: "string \<Rightarrow> ustr" where
  "jq s = [34] @ ascii s @ [34]"

definition sample_form_json :: ustr where
  "sample_form_json =
     ascii ''{'' @ jq ''name'' @ ascii '': '' @ jq ''Ada'' @ ascii '', ''
     @ jq ''title'' @ ascii '': '' @ jq ''Engineer'' @ ascii ''}''"

definition sample_form_data :: pyval where
  "sample_form_data =
     PyDict [(ascii ''name'', PyStr (ascii ''Ada'')), (ascii ''title'', PyStr (ascii ''Engineer''))]"

definition sample_ai_json :: ustr where
  "sample_ai_json =
     ascii ''{'' @ jq ''summary'' @ ascii '': '' @ jq ''Builds things.'' @ ascii '', ''
     @ jq ''skills_line'' @ ascii '': '' @ jq ''Go, Rust'' @ ascii ''}''"

definition sample_ai_struct :: pyval where
  "sample_ai_struct =
     PyDict [(ascii ''summary'', PyStr (ascii ''Builds things.'')),
             (ascii ''skills_line'', PyStr (ascii ''Go, Rust''))]"

text \<open>A form whose name holds a line feed, written in JSON with the escape \<open>\n\<close>.\<close>

definition broken_name_json :: ustr where
  "broken_name_json =
     ascii ''{'' @ jq ''name'' @ ascii '': '' @ [34] @ ascii ''A'' @ [92] @ ascii ''nB'' @ [34]
     @ ascii ''}''"

definition broken_name_data :: pyval where
  "broken_name_data = PyDict [(ascii ''name'', PyStr (ascii ''A'' @ [10] @ ascii ''B''))]"

definition sample_loads :: "ustr \<Rightarrow> exn + pyval" where
  "sample_loads s =
     (if s = ascii ''null'' then Inr PyNone
      else if s = ascii ''{}'' then Inr (PyDict [])
      else if s = ascii ''[]'' then Inr (PyList [])
      else if s = sample_form_json then Inr sample_form_data
      else if s = sample_ai_json then Inr sample_ai_struct
      else if s = broken_name_json then Inr broken_name_data
      else Inl JSONDecodeError)"

text \<open>The response object of the completion service that carries the text \<open>reply\<close>.\<close>

definition completion :: "ustr \<Rightarrow> pyval" where
  "completion reply =
     PyDict [(ascii ''choices'',
              PyList [PyDict [(ascii ''message'', PyDict [(ascii ''content'', PyStr reply)])]])]"

definition sample_env :: "ustr \<Rightarrow> env" where
  "sample_env reply =
     \<lparr>OPENAI_AVAILABLE = True, WEASY_AVAILABLE = False, DOCX_AVAILABLE = False,
      json_dumps = (\<lambda>d. Inr (ascii ''{}'')),
      json_loads = sample_loads,
      ChatCompletion_create = (\<lambda>k prompt. Inr (completion reply)),
      render_template = (\<lambda>nm f a img. Inr (ascii ''<html></html>'')),
      write_pdf = (\<lambda>html. Inl ExternalError),
      canvas_check = (\<lambda>log c. None),
      canvas_bytes = (\<lambda>log. ascii ''%PDF-1.4''),
      path_exists = (\<lambda>p. False),
      docx_check = (\<lambda>log c. None),
      docx_bytes = (\<lambda>log. ascii ''PK''),
      str_other = (\<lambda>v. Inr (ascii ''None'')),
      send_file_check = (\<lambda>buf dl mime. if 10 \<in> set dl \<or> 13 \<in> set dl
                                          then Some ValueError else None)\<rparr>"

definition sample_key :: ustr where
  "sample_key = ascii ''sk-1''"

definition sample_post :: "ustr \<rightharpoonup> ustr" where
  "sample_post = [ascii ''apikey'' \<mapsto> sample_key, ascii ''title'' \<mapsto> ascii ''Engineer'']"

definition sample_download :: download_request where
  "sample_download =
     \<lparr>form_data_json = Some sample_form_json, ai_json = Some sample_ai_json,
      template_choice = Some (ascii ''template1''), profile_image_path = None\<rparr>"

section \<open>Theorems about the local structurer\<close>

subsection \<open>The result in closed form\<close>

lemma separators_nonempty:
  "ascii '','' \<noteq> []" "ascii ''||'' \<noteq> []" "EM_DASH \<noteq> []"
  by (simp_all add: ascii_def EM_DASH_def)

lemma py_split_nonempty_sep:
  "sep \<noteq> [] \<Longrightarrow> py_split s sep = Inr (spec_pieces sep s)"
  by (simp add: py_split_def spec_pieces_def)

lemma experience_entry_of_eq: "experience_entry_of b = Inr (spec_entry b)"
  by (simp add: experience_entry_of_def py_split_nonempty_sep separators_nonempty
      ebind_def py_index_def spec_entry_def spec_part_def Let_def)

lemma experience_loop_eq:
  "experience_loop blocks ex_list =
     Inr (ex_list @ map spec_entry (filter (\<lambda>b. b \<noteq> []) (map py_strip blocks)))"
proof (induction blocks arbitrary: ex_list)
  case Nil
  show ?case by simp
next
  case (Cons block rest)
  show ?case
  proof (cases "py_strip block = []")
    case True
    then show ?thesis by (simp add: Cons.IH)
  next
    case False
    then show ?thesis by (simp add: Cons.IH experience_entry_of_eq)
  qed
qed

lemma filter_strip_tokens:
  "map py_strip (filter (\<lambda>s. py_strip s \<noteq> []) toks)
     = filter (\<lambda>t. t \<noteq> []) (map py_strip toks)"
  by (induction toks) simp_all

lemma fallback_structure_eq:
  "fallback_structure data =
     Inr \<lparr>summary = spec_summary (dict_get data (ascii ''title'') [])
                                  (dict_get data (ascii ''skills'') []),
          experiences = map spec_entry (spec_blocks (dict_get data (ascii ''experience_raw'') [])),
          skills_line = spec_skills_line (dict_get data (ascii ''skills'') [])\<rparr>"
  by (simp add: fallback_structure_def py_split_nonempty_sep separators_nonempty ebind_def
      experience_loop_eq filter_strip_tokens spec_summary_def spec_skills_line_def
      spec_skill_tokens_def spec_blocks_def Let_def)

text \<open>The definitions that a run on a concrete input unfolds.\<close>

lemmas py_eval = ascii_def EM_DASH_def startswith_def py_strip_def isspace_def spec_pieces_def
  spec_blocks_def spec_part_def spec_skill_tokens_def spec_skills_line_def spec_summary_def
  spec_entry_def first_bullet_def dict_get_def

lemma count_nonempty_stripped:
  "length (filter (\<lambda>b. b \<noteq> []) (map py_strip blocks))
     = length (filter (\<lambda>b. py_strip b \<noteq> []) blocks)"
  by (induction blocks) simp_all

lemma dict_get_simps:
  "dict_get Map.empty k d = d"
  "dict_get (m(k \<mapsto> v)) k d = v"
  "k' \<noteq> k \<Longrightarrow> dict_get (m(k' \<mapsto> v)) k d = dict_get m k d"
  by (simp_all add: dict_get_def)

subsection \<open>Totality\<close>

text \<open>
  C8. The local structurer is total: for every form, also one in which any of the keys
  is missing or mapped to the empty string, \<open>fallback_structure\<close> returns a structure with
  a summary, the experiences and a skills line; it raises no exception, although the
  model lets \<open>split\<close> and every indexing raise.
\<close>

theorem fallback_structure_total:
  "(\<exists>r. fallback_structure data = Inr r) \<and> (\<forall>e. fallback_structure data \<noteq> Inl e)"
  by (simp add: fallback_structure_eq)

lemma fallback_structure_empty_form:
  "fallback_structure Map.empty =
     Inr \<lparr>summary = ascii '' with experience in .'', experiences = [], skills_line = []\<rparr>"
  by (simp add: fallback_structure_eq py_eval)

subsection \<open>The number of experiences\<close>

text \<open>
  C1. For every form, the experiences of the result are as many as the blocks of
  \<open>experience_raw\<close>, split on \<open>||\<close>, that are not empty once trimmed.
\<close>

theorem experiences_count:
  "\<exists>r blocks.
     fallback_structure data = Inr r
     \<and> py_split (dict_get data (ascii ''experience_raw'') []) (ascii ''||'') = Inr blocks
     \<and> length (experiences r) = length (filter (\<lambda>b. py_strip b \<noteq> []) blocks)"
  by (simp add: fallback_structure_eq py_split_nonempty_sep separators_nonempty
      spec_blocks_def comp_def)

subsection \<open>The summary and the skills line\<close>

lemma example_summary:
  "spec_summary (dict_get example_form (ascii ''title'') [])
                (dict_get example_form (ascii ''skills'') [])
     = ascii ''Engineer with experience in Python, , Go.''"
  by (simp add: example_form_def py_eval)

text \<open>
  C7. For every form, the summary is the title, the words \<open>with experience in\<close>, the
  first three trimmed tokens of the skills text joined with a comma and a space, and a
  full stop. The tokens are the pieces between the commas; an empty one is not removed
  here: the title \<open>Engineer\<close> with the skills \<open>Python, , Go ,Rust\<close> gives
  \<open>Engineer with experience in Python, , Go.\<close>
\<close>

theorem summary_first_three_skills:
  "(\<exists>r toks.
      fallback_structure data = Inr r
      \<and> py_split (dict_get data (ascii ''skills'') []) (ascii '','') = Inr toks
      \<and> summary r =
          dict_get data (ascii ''title'') [] @ ascii '' with experience in ''
          @ py_join (ascii '', '') (take 3 (map py_strip toks)) @ ascii ''.'')
   \<and> (\<exists>r. fallback_structure example_form = Inr r
          \<and> summary r = ascii ''Engineer with experience in Python, , Go.'')"
  by (simp add: fallback_structure_eq py_split_nonempty_sep separators_nonempty
      example_summary, simp add: spec_summary_def spec_skill_tokens_def)

lemma example_skills_line:
  "spec_skills_line (ascii ''Python, , Go ,Rust'') = ascii ''Python, Go, Rust''"
  by (simp add: py_eval)

text \<open>
  C3. For every form, the skills line is the trimmed tokens of the skills text, split on
  the comma, without the tokens that are empty once trimmed, in their order, joined
  with a comma and a space. The skills text \<open>Python, , Go ,Rust\<close> gives
  \<open>Python, Go, Rust\<close>.
\<close>

theorem skills_line_projection:
  "(\<exists>r toks.
      fallback_structure data = Inr r
      \<and> py_split (dict_get data (ascii ''skills'') []) (ascii '','') = Inr toks
      \<and> skills_line r = py_join (ascii '', '') (filter (\<lambda>t. t \<noteq> []) (map py_strip toks)))
   \<and> (\<exists>r. fallback_structure [ascii ''skills'' \<mapsto> ascii ''Python, , Go ,Rust''] = Inr r
          \<and> skills_line r = ascii ''Python, Go, Rust'')"
  by (simp add: fallback_structure_eq py_split_nonempty_sep separators_nonempty
      spec_skills_line_def spec_skill_tokens_def dict_get_simps
      example_skills_line [unfolded spec_skills_line_def spec_skill_tokens_def])

subsection \<open>The first bullet and the fillers\<close>

lemma entry_of_block:
  assumes "fallback_structure data = Inr r"
    and "blocks = spec_blocks (dict_get data (ascii ''experience_raw'') [])"
    and "i < length blocks"
  shows "i < length (experiences r)" and "experiences r ! i = spec_entry (blocks ! i)"
  using assms by (auto simp add: fallback_structure_eq)

lemma length_dots: "length (ascii ''...'') = 3"
  by (simp add: ascii_def)

text \<open>
  C2. For every block with a description that is not empty (the description is the
  fourth part of the block, trimmed): a description of at most 120 characters is the
  first bullet as it is; one of 121 characters or more gives its first 117 characters
  followed by three dots, 120 characters in all.
\<close>

theorem first_bullet_of_description:
  assumes "fallback_structure data = Inr r"
    and "blocks = spec_blocks (dict_get data (ascii ''experience_raw'') [])"
    and "i < length blocks"
    and "desc = spec_part (blocks ! i) 3"
    and "desc \<noteq> []"
  shows "i < length (experiences r)
     \<and> (length desc \<le> 120 \<longrightarrow> bullets (experiences r ! i) ! 0 = desc)
     \<and> (121 \<le> length desc \<longrightarrow>
          bullets (experiences r ! i) ! 0 = take 117 desc @ ascii ''...''
          \<and> length (bullets (experiences r ! i) ! 0) = 120)"
proof -
  have e: "experiences r ! i = spec_entry (blocks ! i)"
    using assms(1-3) by (rule entry_of_block)
  have b: "bullets (experiences r ! i) ! 0 = first_bullet desc (spec_part (blocks ! i) 1)
             (spec_part (blocks ! i) 0)"
    by (simp add: e spec_entry_def assms(4))
  have short: "length desc \<le> 120 \<Longrightarrow> bullets (experiences r ! i) ! 0 = desc"
    using assms(5) by (simp add: b first_bullet_def)
  have long: "121 \<le> length desc \<Longrightarrow>
      bullets (experiences r ! i) ! 0 = take 117 desc @ ascii ''...''"
    using assms(5) by (simp add: b first_bullet_def)
  have len: "121 \<le> length desc \<Longrightarrow> length (take 117 desc @ ascii ''...'') = 120"
    by (simp add: length_dots)
  show ?thesis
    using entry_of_block(1) [OF assms(1-3)] short long len by simp
qed

lemma long_blocks:
  "[ascii ''Acme'' @ EM_DASH @ ascii ''Engineer'' @ EM_DASH @ ascii ''2020'' @ EM_DASH @ desc120,
    ascii ''Globex'' @ EM_DASH @ ascii ''Lead'' @ EM_DASH @ ascii ''2022'' @ EM_DASH @ desc121]
   = spec_blocks (dict_get long_form (ascii ''experience_raw'') [])"
  by (simp add: long_form_def desc120_def desc121_def py_eval)

lemma long_desc0:
  "desc120 = spec_part (ascii ''Acme'' @ EM_DASH @ ascii ''Engineer'' @ EM_DASH @ ascii ''2020''
                         @ EM_DASH @ desc120) 3"
  by (simp add: py_eval desc120_def)

lemma long_desc1:
  "desc121 = spec_part (ascii ''Globex'' @ EM_DASH @ ascii ''Lead'' @ EM_DASH @ ascii ''2022''
                         @ EM_DASH @ desc121) 3"
  by (simp add: py_eval desc120_def desc121_def)

lemma desc_lengths: "length desc120 = 120" "length desc121 = 121"
  by (simp_all add: desc120_def desc121_def ascii_def)

theorem first_bullet_of_description_witness:
  "\<exists>r. fallback_structure long_form = Inr r
     \<and> length desc120 = 120 \<and> bullets (experiences r ! 0) ! 0 = desc120
     \<and> length desc121 = 121 \<and> bullets (experiences r ! 1) ! 0 = take 117 desc121 @ ascii ''...''
     \<and> length (bullets (experiences r ! 1) ! 0) = 120"
proof -
  obtain r where r: "fallback_structure long_form = Inr r"
    by (simp add: fallback_structure_eq)
  have n0: "desc120 \<noteq> []" and n1: "desc121 \<noteq> []"
    using desc_lengths by auto
  have a: "bullets (experiences r ! 0) ! 0 = desc120"
    using first_bullet_of_description [OF r long_blocks, of 0 desc120] long_desc0 n0 desc_lengths
    by simp
  have b: "bullets (experiences r ! 1) ! 0 = take 117 desc121 @ ascii ''...''
           \<and> length (bullets (experiences r ! 1) ! 0) = 120"
    using first_bullet_of_description [OF r long_blocks, of 1 desc121] long_desc1 n1 desc_lengths
    by (simp add: length_dots)
  show ?thesis
    using r a b desc_lengths by blast
qed

lemma example_entries:
  "map spec_entry (spec_blocks example_experience_raw) =
     [\<lparr>company = ascii ''Acme'', role = ascii ''Engineer'', dates = ascii ''2020-2022'',
       bullets = [ascii ''Built systems'', ascii ''Delivered key results'',
                  ascii ''Collaborated across teams'']\<rparr>,
      \<lparr>company = ascii ''Globex'', role = ascii ''Lead'', dates = ascii ''2022-2023'',
       bullets = [ascii ''Served as Lead at Globex'', ascii ''Delivered key results'',
                  ascii ''Collaborated across teams'']\<rparr>]"
  by (simp add: example_experience_raw_def py_eval)

text \<open>
  C6. For every block, the entry has exactly three bullets: the first bullet, then
  \<open>Delivered key results\<close>, then \<open>Collaborated across teams\<close>. When the description
  (the fourth part) is absent or empty once trimmed, the first bullet is
  \<open>Served as\<close> the role \<open>at\<close> the company, the role and the company being the second
  and the first part of the block. The \<open>experience_raw\<close> of the specification's example
  gives two entries, with the first bullets \<open>Built systems\<close> and
  \<open>Served as Lead at Globex\<close>.
\<close>

theorem placeholder_and_fillers:
  assumes "fallback_structure data = Inr r"
    and "blocks = spec_blocks (dict_get data (ascii ''experience_raw'') [])"
    and "i < length blocks"
  shows "i < length (experiences r)
     \<and> company (experiences r ! i) = spec_part (blocks ! i) 0
     \<and> role (experiences r ! i) = spec_part (blocks ! i) 1
     \<and> (spec_part (blocks ! i) 3 = [] \<longrightarrow>
          bullets (experiences r ! i) ! 0
            = ascii ''Served as '' @ role (experiences r ! i) @ ascii '' at ''
              @ company (experiences r ! i))
     \<and> length (bullets (experiences r ! i)) = 3
     \<and> bullets (experiences r ! i) ! 1 = ascii ''Delivered key results''
     \<and> bullets (experiences r ! i) ! 2 = ascii ''Collaborated across teams''
     \<and> (\<exists>r'. fallback_structure [ascii ''experience_raw'' \<mapsto> example_experience_raw] = Inr r'
           \<and> length (experiences r') = 2
           \<and> bullets (experiences r' ! 0) ! 0 = ascii ''Built systems''
           \<and> bullets (experiences r' ! 1) ! 0 = ascii ''Served as Lead at Globex'')"
proof -
  have e: "experiences r ! i = spec_entry (blocks ! i)"
    using assms by (rule entry_of_block)
  have general:
    "company (experiences r ! i) = spec_part (blocks ! i) 0"
    "role (experiences r ! i) = spec_part (blocks ! i) 1"
    "spec_part (blocks ! i) 3 = [] \<Longrightarrow>
       bullets (experiences r ! i) ! 0
         = ascii ''Served as '' @ role (experiences r ! i) @ ascii '' at ''
           @ company (experiences r ! i)"
    "length (bullets (experiences r ! i)) = 3"
    "bullets (experiences r ! i) ! 1 = ascii ''Delivered key results''"
    "bullets (experiences r ! i) ! 2 = ascii ''Collaborated across teams''"
    by (simp_all add: e spec_entry_def first_bullet_def)
  have example:
    "\<exists>r'. fallback_structure [ascii ''experience_raw'' \<mapsto> example_experience_raw] = Inr r'
       \<and> length (experiences r') = 2
       \<and> bullets (experiences r' ! 0) ! 0 = ascii ''Built systems''
       \<and> bullets (experiences r' ! 1) ! 0 = ascii ''Served as Lead at Globex''"
    by (simp add: fallback_structure_eq dict_get_simps example_entries)
  show ?thesis
    using entry_of_block(1) [OF assms] general example by simp
qed

lemma three_items:
  "xs = [a, b, c] \<longleftrightarrow> length xs = 3 \<and> xs ! 0 = a \<and> xs ! 1 = b \<and> xs ! 2 = c"
  by (auto simp add: length_Suc_conv numeral_3_eq_3 numeral_2_eq_2)

lemma example_blocks:
  "[ascii ''Acme'' @ EM_DASH @ ascii ''Engineer'' @ EM_DASH @ ascii ''2020-2022'' @ EM_DASH
      @ ascii ''Built systems'',
    ascii ''Globex'' @ EM_DASH @ ascii ''Lead'' @ EM_DASH @ ascii ''2022-2023'']
   = spec_blocks (dict_get example_form (ascii ''experience_raw'') [])"
  by (simp add: example_form_def example_experience_raw_def py_eval)

lemma example_parts:
  "spec_part (ascii ''Globex'' @ EM_DASH @ ascii ''Lead'' @ EM_DASH @ ascii ''2022-2023'') 3 = []"
  "spec_part (ascii ''Globex'' @ EM_DASH @ ascii ''Lead'' @ EM_DASH @ ascii ''2022-2023'') 1
     = ascii ''Lead''"
  "spec_part (ascii ''Globex'' @ EM_DASH @ ascii ''Lead'' @ EM_DASH @ ascii ''2022-2023'') 0
     = ascii ''Globex''"
  by (simp_all add: py_eval)

theorem placeholder_and_fillers_witness:
  "\<exists>r. fallback_structure example_form = Inr r
     \<and> bullets (experiences r ! 1)
         = [ascii ''Served as '' @ ascii ''Lead'' @ ascii '' at '' @ ascii ''Globex'',
            ascii ''Delivered key results'', ascii ''Collaborated across teams'']"
proof -
  obtain r where r: "fallback_structure example_form = Inr r"
    by (simp add: fallback_structure_eq)
  have "length (bullets (experiences r ! 1)) = 3
      \<and> bullets (experiences r ! 1) ! 0
          = ascii ''Served as '' @ ascii ''Lead'' @ ascii '' at '' @ ascii ''Globex''
      \<and> bullets (experiences r ! 1) ! 1 = ascii ''Delivered key results''
      \<and> bullets (experiences r ! 1) ! 2 = ascii ''Collaborated across teams''"
    using placeholder_and_fillers [OF r example_blocks, of 1] example_parts by simp
  then have "bullets (experiences r ! 1)
         = [ascii ''Served as '' @ ascii ''Lead'' @ ascii '' at '' @ ascii ''Globex'',
            ascii ''Delivered key results'', ascii ''Collaborated across teams'']"
    by (simp add: three_items)
  with r show ?thesis by simp
qed

section \<open>Theorems about the AI structurer and the handler\<close>

lemma openai_try_success:
  "fst (openai_try E k f) = Inr parsed \<longleftrightarrow>
     (\<exists>dumped resp reply.
        json_dumps E f = Inr dumped
        \<and> ChatCompletion_create E k (prompt_of dumped) = Inr resp
        \<and> completion_text resp = Inr reply
        \<and> py_json_loads E reply = Inr parsed)"
  by (auto simp add: openai_try_def ebind_def split: sum.splits)

lemma openai_try_requests: "snd (openai_try E k f) \<le> 1"
  by (simp add: openai_try_def split: sum.splits)

lemma call_openai_guard:
  "k = [] \<or> \<not> OPENAI_AVAILABLE E \<Longrightarrow> call_openai_for_resume E k f = (PyNone, 0)"
  by (auto simp add: call_openai_for_resume_def)

lemma call_openai_result:
  "k \<noteq> [] \<Longrightarrow> OPENAI_AVAILABLE E \<Longrightarrow>
     fst (call_openai_for_resume E k f)
       = (case fst (openai_try E k f) of Inl e \<Rightarrow> PyNone | Inr parsed \<Rightarrow> parsed)"
  by (simp add: call_openai_for_resume_def split: prod.splits sum.splits)

lemma call_openai_requests: "snd (call_openai_for_resume E k f) \<le> 1"
  using openai_try_requests [of E k f]
  by (auto simp add: call_openai_for_resume_def split: prod.splits sum.splits)

lemmas env_eval = sample_env_def sample_loads_def sample_form_json_def sample_ai_json_def
  sample_form_data_def sample_ai_struct_def completion_def jq_def sample_key_def ascii_def
  openai_try_def call_openai_for_resume_def completion_text_def getitem_key_def
  getitem_index_def py_index_def py_json_loads_def ebind_def

lemma null_reply:
  "fst (openai_try (sample_env (ascii ''null'')) sample_key Map.empty) = Inr PyNone"
  "fst (call_openai_for_resume (sample_env (ascii ''null'')) sample_key Map.empty) = PyNone"
  "sample_key \<noteq> []"
  "OPENAI_AVAILABLE (sample_env (ascii ''null''))"
  by (simp_all add: env_eval)

text \<open>
  C9 as stated fails. With a key and the capability present, a response whose text is
  the JSON value \<open>null\<close> makes no step fail, and the parsed value, which is \<open>None\<close>,
  is returned: the result is absent although none of the three conditions holds.
\<close>

theorem absent_without_failure:
  "\<not> (fst (call_openai_for_resume (sample_env (ascii ''null'')) sample_key Map.empty) = PyNone
       \<longleftrightarrow> (sample_key = [] \<or> \<not> OPENAI_AVAILABLE (sample_env (ascii ''null''))
            \<or> isl (fst (openai_try (sample_env (ascii ''null'')) sample_key Map.empty))))"
  by (simp add: null_reply)

text \<open>
  C9, amended. Without a key or without the capability the result is \<open>None\<close> and no
  request is sent. Otherwise at most one request is sent; the result is \<open>None\<close> when a
  step raises (serialising the form, the request, reading the text of the first choice,
  \<open>json.loads\<close>), and the parsed value, as it is, when every step succeeds. So the
  result is \<open>None\<close> exactly when the key is empty, the capability is missing, a step
  raises, or the response parses to \<open>None\<close>.
\<close>

theorem ai_structurer_outcome:
  "(k = [] \<or> \<not> OPENAI_AVAILABLE E \<longrightarrow> call_openai_for_resume E k f = (PyNone, 0))
   \<and> (k \<noteq> [] \<and> OPENAI_AVAILABLE E \<longrightarrow>
        (\<forall>e. fst (openai_try E k f) = Inl e \<longrightarrow> fst (call_openai_for_resume E k f) = PyNone)
        \<and> (\<forall>dumped resp reply parsed.
              json_dumps E f = Inr dumped
              \<and> ChatCompletion_create E k (prompt_of dumped) = Inr resp
              \<and> completion_text resp = Inr reply
              \<and> py_json_loads E reply = Inr parsed
              \<longrightarrow> fst (call_openai_for_resume E k f) = parsed))
   \<and> snd (call_openai_for_resume E k f) \<le> 1
   \<and> (fst (call_openai_for_resume E k f) = PyNone
        \<longleftrightarrow> (k = [] \<or> \<not> OPENAI_AVAILABLE E \<or> isl (fst (openai_try E k f))
             \<or> fst (openai_try E k f) = Inr PyNone))"
proof -
  have guard: "k = [] \<or> \<not> OPENAI_AVAILABLE E \<Longrightarrow> call_openai_for_resume E k f = (PyNone, 0)"
    by (fact call_openai_guard)
  have failure: "\<And>e. k \<noteq> [] \<Longrightarrow> OPENAI_AVAILABLE E \<Longrightarrow> fst (openai_try E k f) = Inl e \<Longrightarrow>
      fst (call_openai_for_resume E k f) = PyNone"
    by (simp add: call_openai_result)
  have success: "fst (call_openai_for_resume E k f) = parsed"
    if a: "k \<noteq> []" "OPENAI_AVAILABLE E"
      and s: "json_dumps E f = Inr dumped"
        "ChatCompletion_create E k (prompt_of dumped) = Inr resp"
        "completion_text resp = Inr reply" "py_json_loads E reply = Inr parsed"
    for dumped resp reply parsed
  proof -
    from s have "fst (openai_try E k f) = Inr parsed"
      unfolding openai_try_success by blast
    with a show ?thesis
      by (simp add: call_openai_result)
  qed
  have iff: "fst (call_openai_for_resume E k f) = PyNone
      \<longleftrightarrow> (k = [] \<or> \<not> OPENAI_AVAILABLE E \<or> isl (fst (openai_try E k f))
           \<or> fst (openai_try E k f) = Inr PyNone)"
  proof (cases "k = [] \<or> \<not> OPENAI_AVAILABLE E")
    case True
    then show ?thesis using call_openai_guard [of k E f] by auto
  next
    case False
    then show ?thesis
      by (cases "fst (openai_try E k f)") (auto simp add: call_openai_result)
  qed
  show ?thesis
    using guard failure success call_openai_requests [of E k f] iff by blast
qed

lemma sample_reply:
  "json_dumps (sample_env sample_ai_json) Map.empty = Inr (ascii ''{}'')"
  "ChatCompletion_create (sample_env sample_ai_json) sample_key (prompt_of (ascii ''{}''))
     = Inr (completion sample_ai_json)"
  "completion_text (completion sample_ai_json) = Inr (PyStr sample_ai_json)"
  "py_json_loads (sample_env sample_ai_json) (PyStr sample_ai_json) = Inr sample_ai_struct"
  "sample_key \<noteq> []"
  "OPENAI_AVAILABLE (sample_env sample_ai_json)"
  by (simp_all add: env_eval)

theorem ai_structurer_outcome_witness:
  "sample_key \<noteq> [] \<and> OPENAI_AVAILABLE (sample_env sample_ai_json)
   \<and> py_json_loads (sample_env sample_ai_json) (PyStr sample_ai_json) = Inr sample_ai_struct
   \<and> fst (call_openai_for_resume (sample_env sample_ai_json) sample_key Map.empty)
       = sample_ai_struct
   \<and> snd (call_openai_for_resume (sample_env sample_ai_json) sample_key Map.empty) \<le> 1"
  using ai_structurer_outcome [of sample_key "sample_env sample_ai_json" Map.empty] sample_reply
  by blast

lemma truthy_dict_of_structure:
  "truthy (dict_of_structure r)" "dict_of_structure r \<noteq> PyNone"
  "dict_of_structure r \<noteq> PyDict []" "dict_of_structure r \<noteq> PyList []"
  by (simp_all add: dict_of_structure_def)

lemma truthy_not_empty: "truthy v \<Longrightarrow> v \<noteq> PyNone \<and> v \<noteq> PyDict [] \<and> v \<noteq> PyList []"
  by auto

text \<open>
  C10. In \<open>index\<close>, the structure handed to rendering is the result of the local
  structurer whenever the result of the AI structurer is falsy (no key, no capability,
  \<open>None\<close>, or a parsed value such as \<open>{}\<close> or \<open>[]\<close>), and the result of the AI
  structurer otherwise; so it is never \<open>None\<close> and never empty.
\<close>

theorem handler_structure_never_falsy:
  assumes "apikey = py_strip (dict_get rf (ascii ''apikey'') [])"
    and "form = collect_form rf"
    and "ai = fst (call_openai_for_resume E apikey form)"
  shows "\<exists>v r. index_ai_struct E rf = Inr v \<and> fallback_structure form = Inr r
           \<and> truthy v \<and> v \<noteq> PyNone \<and> v \<noteq> PyDict [] \<and> v \<noteq> PyList []
           \<and> (apikey = [] \<or> \<not> OPENAI_AVAILABLE E \<or> \<not> truthy ai \<longrightarrow> v = dict_of_structure r)
           \<and> (apikey \<noteq> [] \<and> OPENAI_AVAILABLE E \<and> truthy ai \<longrightarrow> v = ai)"
proof -
  obtain r where r: "fallback_structure form = Inr r"
    by (simp add: fallback_structure_eq)
  show ?thesis
  proof (cases "apikey \<noteq> [] \<and> OPENAI_AVAILABLE E \<and> truthy ai")
    case True
    then have "index_ai_struct E rf = Inr ai"
      using assms by (simp add: index_ai_struct_def Let_def)
    with True r truthy_not_empty [of ai] show ?thesis by auto
  next
    case False
    then have "index_ai_struct E rf = Inr (dict_of_structure r)"
      using assms r by (auto simp add: index_ai_struct_def Let_def ebind_def)
    with False r truthy_dict_of_structure [of r] show ?thesis by auto
  qed
qed

lemma empty_object_reply:
  "sample_key = py_strip (dict_get sample_post (ascii ''apikey'') [])"
  "fst (openai_try (sample_env (ascii ''{}'')) sample_key form) = Inr (PyDict [])"
  "fst (call_openai_for_resume (sample_env (ascii ''{}'')) sample_key form) = PyDict []"
  "sample_key \<noteq> []"
  "OPENAI_AVAILABLE (sample_env (ascii ''{}''))"
  by (simp_all add: env_eval sample_post_def py_strip_def isspace_def dict_get_def)

theorem handler_structure_never_falsy_witness:
  "\<exists>v r. index_ai_struct (sample_env (ascii ''{}'')) sample_post = Inr v
     \<and> fallback_structure (collect_form sample_post) = Inr r
     \<and> fst (openai_try (sample_env (ascii ''{}'')) sample_key (collect_form sample_post))
         = Inr (PyDict [])
     \<and> truthy v \<and> v = dict_of_structure r"
  using handler_structure_never_falsy [OF empty_object_reply(1) refl refl,
      of "sample_env (ascii ''{}'')"]
    empty_object_reply(2,3) [of "collect_form sample_post"]
  by auto

section \<open>Theorems about the export\<close>

lemma mimes_differ: "DOCX_MIME \<noteq> TEXT_MIME"
  by (simp add: DOCX_MIME_def TEXT_MIME_def ascii_def)

lemma loads_field:
  "py_json_loads E (form_field (Some s)) = json_loads E s"
  "py_json_loads E (form_field None) = Inl TypeError"
  by (simp_all add: py_json_loads_def form_field_def)

lemma ebind_simps: "ebind (Inr x) f = f x" "ebind (Inl e) f = Inl e"
  by (simp_all add: ebind_def)

lemma py_slice_str: "py_slice_to (PyStr s) n = Inr (PyStr (take n s))"
  by (simp add: py_slice_to_def)

lemma canvas_do_accepted:
  assumes "\<And>log c. canvas_check E log c = None"
  shows "canvas_do E log c = Inr (log @ [c])"
  by (simp add: canvas_do_def assms)

lemma py_get_dict:
  "py_get (PyDict kvs) k d = Inr (case map_of kvs k of None \<Rightarrow> d | Some x \<Rightarrow> x)"
  by (simp add: py_get_def)

lemma draw_lines_step:
  assumes "\<And>log c. canvas_check E log c = None"
  shows "draw_lines E x y (PyStr s # rest) log =
           (if y - 14 < 80
            then draw_lines E x 750 rest (log @ [DrawString x y (PyStr (take 95 s)), ShowPage])
            else draw_lines E x (y - 14) rest (log @ [DrawString x y (PyStr (take 95 s))]))"
  by (simp add: canvas_do_accepted [OF assms] py_slice_str ebind_simps Let_def)

lemma reportlab_two_lines:
  assumes "\<And>log c. canvas_check E log c = None"
  shows "reportlab_pdf_bytes E
           (PyDict [(ascii ''title_line'', title),
                    (ascii ''lines'', PyList [PyStr s1, PyStr s2])]) img
         = Inr (canvas_bytes E
             [SetFont (ascii ''Helvetica-Bold'') 18, DrawString 50 750 title,
              SetFont (ascii ''Helvetica'') 11, DrawString 50 726 (PyStr (take 95 s1)),
              DrawString 50 712 (PyStr (take 95 s2)), Save])"
proof -
  have k: "ascii ''lines'' \<noteq> ascii ''title_line''"
    by (simp add: ascii_def)
  have loop: "draw_lines E 50 726 [PyStr s1, PyStr s2] log
      = Inr (log @ [DrawString 50 726 (PyStr (take 95 s1)), DrawString 50 712 (PyStr (take 95 s2))])"
    for log
    by (simp add: draw_lines_step [OF assms] del: draw_lines.simps(2))
  show ?thesis
    by (simp add: reportlab_pdf_bytes_def canvas_do_accepted [OF assms] py_get_dict
        py_iter_def ebind_simps Let_def k loop del: draw_lines.simps)
qed

lemma canvas_do_result:
  "canvas_do E log c = Inr log1 \<Longrightarrow> log1 = log @ [c]"
  by (simp add: canvas_do_def split: option.splits)

text \<open>
  The loop of \<open>reportlab_pdf_bytes\<close>, started with the cursor on the page, draws one
  text for each line and none of them below the margin of 80 or above 750.
\<close>

lemma draw_lines_on_page:
  "draw_lines E x y ls log = Inr log' \<Longrightarrow> 80 \<le> y \<Longrightarrow> y \<le> 750 \<Longrightarrow>
     \<exists>new. log' = log @ new \<and> list_all on_page new
        \<and> length (filter (\<lambda>c. c \<noteq> ShowPage) new) = length ls"
proof (induction ls arbitrary: y log)
  case Nil
  then show ?case by simp
next
  case (Cons line rest)
  from Cons.prems(1) obtain cut log1 where
    cut: "py_slice_to line 95 = Inr cut" and
    l1: "canvas_do E log (DrawString x y cut) = Inr log1" and
    rest: "(if y - 14 < 80
            then ebind (canvas_do E log1 ShowPage) (\<lambda>log2. draw_lines E x 750 rest log2)
            else draw_lines E x (y - 14) rest log1) = Inr log'"
    by (auto simp add: ebind_def Let_def split: sum.splits)
  have log1: "log1 = log @ [DrawString x y cut]"
    using l1 by (rule canvas_do_result)
  show ?case
  proof (cases "y - 14 < 80")
    case True
    with rest obtain log2 where l2: "canvas_do E log1 ShowPage = Inr log2"
      and r: "draw_lines E x 750 rest log2 = Inr log'"
      by (auto simp add: ebind_def split: sum.splits)
    have log2: "log2 = log1 @ [ShowPage]"
      using l2 by (rule canvas_do_result)
    from Cons.IH [OF r] obtain new where "log' = log2 @ new" "list_all on_page new"
      "length (filter (\<lambda>c. c \<noteq> ShowPage) new) = length rest"
      by auto
    then show ?thesis
      using log1 log2 Cons.prems(2,3)
      by (intro exI [of _ "DrawString x y cut # ShowPage # new"]) simp
  next
    case False
    with rest have r: "draw_lines E x (y - 14) rest log1 = Inr log'"
      by simp
    from False Cons.prems(3) have "80 \<le> y - 14" "y - 14 \<le> 750"
      by auto
    from Cons.IH [OF r this] obtain new where "log' = log1 @ new" "list_all on_page new"
      "length (filter (\<lambda>c. c \<noteq> ShowPage) new) = length rest"
      by auto
    then show ?thesis
      using log1 Cons.prems(2,3)
      by (intro exI [of _ "DrawString x y cut # new"]) simp
  qed
qed

lemmas export_eval = sample_env_def sample_loads_def sample_form_json_def sample_ai_json_def
  sample_form_data_def sample_ai_struct_def sample_download_def jq_def ascii_def
  broken_name_json_def broken_name_data_def
  py_json_loads_def form_field_def or_None_def ebind_def py_get_def py_format_def
  render_resume_html_def TPL_MAP_def send_file_def

lemma send_file_accepted:
  "send_file_check E buf dl mime = None \<Longrightarrow>
     send_file E buf dl mime = Inr \<lparr>body = buf, download_name = dl, mimetype = mime\<rparr>"
  by (simp add: send_file_def)

lemma send_file_result:
  "send_file E buf dl mime = Inr resp \<Longrightarrow>
     resp = \<lparr>body = buf, download_name = dl, mimetype = mime\<rparr>"
  by (simp add: send_file_def split: option.splits)


text \<open>
  A name with a line break is one more way to fail: \<open>send_file\<close> refuses the download
  name, in the PDF export (after the fallback has drawn the page) and in the DOCX export.
\<close>

lemma export_name_with_line_break:
  "download_pdf (sample_env []) (sample_download\<lparr>form_data_json := Some broken_name_json\<rparr>)
     = Inl ValueError"
  "download_docx (sample_env []) (sample_download\<lparr>form_data_json := Some broken_name_json\<rparr>)
     = Inl ValueError"
proof -
  let ?E = "sample_env []"
  have c: "\<And>log c. canvas_check ?E log c = None"
    by (simp add: sample_env_def)
  have lines: "reportlab_pdf_bytes ?E
      (PyDict [(ascii ''title_line'', PyStr (ascii ''A'' @ [10] @ ascii ''B'')),
               (ascii ''lines'', PyList [PyStr (ascii ''Builds things.''),
                                         PyStr (ascii ''Go, Rust'')])]) None
      = Inr (ascii ''%PDF-1.4'')"
    using reportlab_two_lines [OF c, of "PyStr (ascii ''A'' @ [10] @ ascii ''B'')"
        "ascii ''Builds things.''" "ascii ''Go, Rust''" None]
    by (simp add: sample_env_def)
  show "download_pdf ?E (sample_download\<lparr>form_data_json := Some broken_name_json\<rparr>)
      = Inl ValueError"
    using lines by (simp add: download_pdf_def pdf_fallback_def export_eval)
  show "download_docx ?E (sample_download\<lparr>form_data_json := Some broken_name_json\<rparr>)
      = Inl ValueError"
    by (simp add: download_docx_def fallback_text_def NL_def utf8_char_def export_eval)
qed



lemma download_docx_mimetype:
  "download_docx E req = Inr resp \<Longrightarrow>
     mimetype resp = (if DOCX_AVAILABLE E then DOCX_MIME else TEXT_MIME)"
  by (auto simp add: download_docx_def ebind_def Let_def
      dest!: send_file_result split: sum.splits if_splits)

text \<open>
  C5 as stated fails: the export does not always return bytes. A request without the
  field \<open>ai_json\<close> makes \<open>json.loads\<close> raise; and without python-docx, a request
  whose \<open>ai_json\<close> is the JSON list \<open>[]\<close> makes the text fallback raise.
\<close>

theorem docx_export_can_raise:
  "download_docx (sample_env []) (sample_download\<lparr>ai_json := None\<rparr>) = Inl TypeError
   \<and> download_docx (sample_env []) (sample_download\<lparr>ai_json := Some (ascii ''[]'')\<rparr>)
       = Inl AttributeError"
  by (simp add: download_docx_def export_eval)

text \<open>
  C5, amended. When both JSON fields of the request parse to objects, the values
  written can be formatted and \<open>send_file\<close> accepts the download name: with
  python-docx present and the document built, the result is the bytes of the document
  with the DOCX content type and the name of the form followed by \<open>.docx\<close>; with
  python-docx absent and the text encodable, the result is the UTF-8 bytes of the text
  made of the name, the title, the summary and the skills line, with the content type
  \<open>text/plain\<close> and the name followed by \<open>.txt\<close>. Whenever the export returns,
  for any request, the content type is the DOCX one exactly when python-docx is
  present: plain text never carries it.
\<close>

theorem docx_export_content_type:
  assumes form_field: "form_data_json req = Some fj"
    and form_object: "json_loads E fj = Inr (PyDict fd)"
    and ai_field: "ai_json req = Some aj"
    and ai_object: "json_loads E aj = Inr (PyDict ai)"
    and name: "py_get (PyDict fd) (ascii ''name'') (PyStr (ascii ''resume'')) = Inr nm"
    and name_text: "py_format E nm = Inr dl"
    and name0: "py_get (PyDict fd) (ascii ''name'') (PyStr []) = Inr n0"
    and name0_text: "py_format E n0 = Inr n0_text"
    and title: "py_get (PyDict fd) (ascii ''title'') (PyStr []) = Inr ttl"
    and title_text: "py_format E ttl = Inr ttl_text"
    and summ: "py_get (PyDict ai) (ascii ''summary'') (PyStr []) = Inr sm"
    and summ_text: "py_format E sm = Inr sm_text"
    and skills: "py_get (PyDict ai) (ascii ''skills_line'') (PyStr []) = Inr sk"
    and skills_text: "py_format E sk = Inr sk_text"
  shows "(DOCX_AVAILABLE E
          \<and> generate_docx_bytes E (PyDict fd) (PyDict ai) (or_None (profile_image_path req))
              = Inr buf
          \<and> send_file_check E buf (dl @ ascii ''.docx'') DOCX_MIME = None
          \<longrightarrow> download_docx E req =
                Inr \<lparr>body = buf, download_name = dl @ ascii ''.docx'', mimetype = DOCX_MIME\<rparr>)
     \<and> (\<not> DOCX_AVAILABLE E
          \<and> py_encode (n0_text @ NL @ ttl_text @ NL @ NL @ sm_text @ NL @ NL
                        @ ascii ''Skills: '' @ sk_text @ NL) = Inr enc
          \<and> send_file_check E enc (dl @ ascii ''.txt'') TEXT_MIME = None
          \<longrightarrow> download_docx E req =
                Inr \<lparr>body = enc, download_name = dl @ ascii ''.txt'', mimetype = TEXT_MIME\<rparr>)
     \<and> (\<forall>resp. download_docx E req = Inr resp \<longrightarrow>
            mimetype resp = (if DOCX_AVAILABLE E then DOCX_MIME else TEXT_MIME)
            \<and> (mimetype resp = DOCX_MIME \<longleftrightarrow> DOCX_AVAILABLE E))"
proof -
  let ?img = "or_None (profile_image_path req)"
  have docx: "DOCX_AVAILABLE E \<Longrightarrow>
      generate_docx_bytes E (PyDict fd) (PyDict ai) ?img = Inr buf \<Longrightarrow>
      send_file_check E buf (dl @ ascii ''.docx'') DOCX_MIME = None \<Longrightarrow>
      download_docx E req =
        Inr \<lparr>body = buf, download_name = dl @ ascii ''.docx'', mimetype = DOCX_MIME\<rparr>"
    by (simp add: download_docx_def assms loads_field ebind_simps send_file_accepted)
  have plain: "\<not> DOCX_AVAILABLE E \<Longrightarrow>
      py_encode (n0_text @ NL @ ttl_text @ NL @ NL @ sm_text @ NL @ NL
                 @ ascii ''Skills: '' @ sk_text @ NL) = Inr enc \<Longrightarrow>
      send_file_check E enc (dl @ ascii ''.txt'') TEXT_MIME = None \<Longrightarrow>
      download_docx E req =
        Inr \<lparr>body = enc, download_name = dl @ ascii ''.txt'', mimetype = TEXT_MIME\<rparr>"
    by (simp add: download_docx_def assms loads_field ebind_simps fallback_text_def
        send_file_accepted)
  have kind: "download_docx E req = Inr resp \<Longrightarrow>
      mimetype resp = (if DOCX_AVAILABLE E then DOCX_MIME else TEXT_MIME)
      \<and> (mimetype resp = DOCX_MIME \<longleftrightarrow> DOCX_AVAILABLE E)" for resp
    using download_docx_mimetype [of E req resp] mimes_differ by auto
  show ?thesis
    using docx plain kind by blast
qed

lemma sample_text_bytes:
  "py_encode (ascii ''Ada'' @ NL @ ascii ''Engineer'' @ NL @ NL @ ascii ''Builds things.'' @ NL
              @ NL @ ascii ''Skills: '' @ ascii ''Go, Rust'' @ NL)
     = Inr (ascii ''Ada'' @ NL @ ascii ''Engineer'' @ NL @ NL @ ascii ''Builds things.'' @ NL
            @ NL @ ascii ''Skills: Go, Rust'' @ NL)"
  by (simp add: ascii_def NL_def utf8_char_def ebind_def)

lemma sample_docx_bytes:
  "generate_docx_bytes (sample_env []\<lparr>DOCX_AVAILABLE := True\<rparr>)
     (PyDict [(ascii ''name'', PyStr (ascii ''Ada'')), (ascii ''title'', PyStr (ascii ''Engineer''))])
     (PyDict [(ascii ''summary'', PyStr (ascii ''Builds things.'')),
              (ascii ''skills_line'', PyStr (ascii ''Go, Rust''))])
     (or_None (profile_image_path sample_download)) = Inr (ascii ''PK'')"
  by (simp add: generate_docx_bytes_def docx_do_def add_profile_picture_def py_iter_def
      export_eval)

theorem docx_export_content_type_witness:
  "\<not> DOCX_AVAILABLE (sample_env [])
   \<and> download_docx (sample_env []) sample_download =
       Inr \<lparr>body = ascii ''Ada'' @ NL @ ascii ''Engineer'' @ NL @ NL @ ascii ''Builds things.''
                   @ NL @ NL @ ascii ''Skills: Go, Rust'' @ NL,
            download_name = ascii ''Ada.txt'', mimetype = TEXT_MIME\<rparr>
   \<and> DOCX_AVAILABLE (sample_env []\<lparr>DOCX_AVAILABLE := True\<rparr>)
   \<and> download_docx (sample_env []\<lparr>DOCX_AVAILABLE := True\<rparr>) sample_download =
       Inr \<lparr>body = ascii ''PK'', download_name = ascii ''Ada.docx'', mimetype = DOCX_MIME\<rparr>"
proof -
  let ?E = "sample_env []"
  let ?D = "sample_env []\<lparr>DOCX_AVAILABLE := True\<rparr>"
  let ?fd = "[(ascii ''name'', PyStr (ascii ''Ada'')), (ascii ''title'', PyStr (ascii ''Engineer''))]"
  let ?ai = "[(ascii ''summary'', PyStr (ascii ''Builds things.'')),
              (ascii ''skills_line'', PyStr (ascii ''Go, Rust''))]"
  have h1: "form_data_json sample_download = Some sample_form_json"
    and h3: "ai_json sample_download = Some sample_ai_json"
    by (simp_all add: sample_download_def)
  have h2: "json_loads ?E sample_form_json = Inr (PyDict ?fd)"
    and h2': "json_loads ?D sample_form_json = Inr (PyDict ?fd)"
    and h4: "json_loads ?E sample_ai_json = Inr (PyDict ?ai)"
    and h4': "json_loads ?D sample_ai_json = Inr (PyDict ?ai)"
    by (simp_all add: export_eval)
  have h5: "py_get (PyDict ?fd) (ascii ''name'') (PyStr (ascii ''resume'')) = Inr (PyStr (ascii ''Ada''))"
    and h6: "py_get (PyDict ?fd) (ascii ''name'') (PyStr []) = Inr (PyStr (ascii ''Ada''))"
    and h7: "py_get (PyDict ?fd) (ascii ''title'') (PyStr []) = Inr (PyStr (ascii ''Engineer''))"
    and h8: "py_get (PyDict ?ai) (ascii ''summary'') (PyStr []) = Inr (PyStr (ascii ''Builds things.''))"
    and h9: "py_get (PyDict ?ai) (ascii ''skills_line'') (PyStr []) = Inr (PyStr (ascii ''Go, Rust''))"
    by (simp_all add: py_get_def ascii_def)
  have e: "\<not> DOCX_AVAILABLE ?E" and d: "DOCX_AVAILABLE ?D"
    by (simp_all add: sample_env_def)
  have fmt: "py_format E (PyStr t) = Inr t" for E t
    by (simp add: py_format_def)
  have s1: "send_file_check ?E buf (ascii ''Ada'' @ ascii ''.txt'') TEXT_MIME = None"
    and s2: "send_file_check ?D buf (ascii ''Ada'' @ ascii ''.docx'') DOCX_MIME = None" for buf
    by (simp_all add: sample_env_def ascii_def)
  have plain: "download_docx ?E sample_download =
       Inr \<lparr>body = ascii ''Ada'' @ NL @ ascii ''Engineer'' @ NL @ NL @ ascii ''Builds things.''
                   @ NL @ NL @ ascii ''Skills: Go, Rust'' @ NL,
            download_name = ascii ''Ada'' @ ascii ''.txt'', mimetype = TEXT_MIME\<rparr>"
    using docx_export_content_type [OF h1 h2 h3 h4 h5 fmt h6 fmt h7 fmt h8 fmt h9 fmt]
      e sample_text_bytes s1
    by simp
  have docx: "download_docx ?D sample_download =
       Inr \<lparr>body = ascii ''PK'', download_name = ascii ''Ada'' @ ascii ''.docx'',
            mimetype = DOCX_MIME\<rparr>"
    using docx_export_content_type [OF h1 h2' h3 h4' h5 fmt h6 fmt h7 fmt h8 fmt h9 fmt]
      d sample_docx_bytes s2
    by simp
  have names: "ascii ''Ada'' @ ascii ''.txt'' = ascii ''Ada.txt''"
    "ascii ''Ada'' @ ascii ''.docx'' = ascii ''Ada.docx''"
    by (simp_all add: ascii_def)
  show ?thesis
    using e d plain docx names by simp
qed

end
